theory Spec2Isabelle
  imports Complex_Main
begin

section \<open>Python strings\<close>

text \<open>
  A Python \<open>str\<close> is modelled as a \<open>string\<close>: one \<open>char\<close> per code point, for
  code points below 256. \<open>str.strip()\<close> removes the code points for which
  \<open>str.isspace\<close> holds; below 256 these are 9-13, 28-32, 133 and 160.
\<close>

definition is_space :: "char \<Rightarrow> bool" where
  "is_space c =
     (let n = (of_char c :: nat)
      in (9 \<le> n \<and> n \<le> 13) \<or> (28 \<le> n \<and> n \<le> 32) \<or> n = 133 \<or> n = 160)"

definition strip :: "string \<Rightarrow> string" where
  "strip s = rev (dropWhile is_space (rev (dropWhile is_space s)))"

text \<open>\<open>s.split(sep)\<close> for a one-character separator: always at least one piece.\<close>

fun split_char :: "char \<Rightarrow> string \<Rightarrow> string list" where
  "split_char sep [] = [[]]"
| "split_char sep (c # cs) =
     (if c = sep then [] # split_char sep cs
      else (let r = split_char sep cs in (c # hd r) # tl r))"

text \<open>\<open>sep.join(pieces)\<close>, the inverse of splitting.\<close>

fun join_char :: "char \<Rightarrow> string list \<Rightarrow> string" where
  "join_char sep [] = []"
| "join_char sep [p] = p"
| "join_char sep (p # q # ps) = p @ sep # join_char sep (q # ps)"

text \<open>\<open>s.split(sep, 1)\<close> when \<open>sep\<close> occurs in \<open>s\<close>: the text before and after
  the first occurrence.\<close>

definition split_first :: "char \<Rightarrow> string \<Rightarrow> string \<times> string" where
  "split_first sep s = (takeWhile (\<lambda>c. c \<noteq> sep) s, tl (dropWhile (\<lambda>c. c \<noteq> sep) s))"

text \<open>\<open>s.replace(a, b)\<close> for one-character \<open>a\<close> and \<open>b\<close>.\<close>

definition replace_char :: "char \<Rightarrow> char \<Rightarrow> string \<Rightarrow> string" where
  "replace_char a b s = map (\<lambda>c. if c = a then b else c) s"

text \<open>\<open>str(n)\<close> for integers and \<open>str(b)\<close> for booleans, as f-strings format them.\<close>

definition digit_char :: "nat \<Rightarrow> char" where
  "digit_char d = ''0123456789'' ! d"

fun str_nat :: "nat \<Rightarrow> string" where
  "str_nat n = (if n < 10 then [digit_char n] else str_nat (n div 10) @ [digit_char (n mod 10)])"

declare str_nat.simps [simp del]

definition str_int :: "int \<Rightarrow> string" where
  "str_int i = (if i < 0 then CHR ''-'' # str_nat (nat (- i)) else str_nat (nat i))"

definition str_bool :: "bool \<Rightarrow> string" where
  "str_bool b = (if b then ''True'' else ''False'')"

text \<open>\<open>str.lower()\<close> on code points below 256: the letters A-Z and the Latin-1 capitals
  (code points 192-222 without the multiplication sign 215) have a lower-case form, 32
  above; every other character is kept.\<close>

definition upper_chars :: string where
  "upper_chars = ''ABCDEFGHIJKLMNOPQRSTUVWXYZ''
     @ [CHR 0xC0, CHR 0xC1, CHR 0xC2, CHR 0xC3, CHR 0xC4, CHR 0xC5, CHR 0xC6, CHR 0xC7,
        CHR 0xC8, CHR 0xC9, CHR 0xCA, CHR 0xCB, CHR 0xCC, CHR 0xCD, CHR 0xCE, CHR 0xCF,
        CHR 0xD0, CHR 0xD1, CHR 0xD2, CHR 0xD3, CHR 0xD4, CHR 0xD5, CHR 0xD6,
        CHR 0xD8, CHR 0xD9, CHR 0xDA, CHR 0xDB, CHR 0xDC, CHR 0xDD, CHR 0xDE]"

definition lower_chars :: string where
  "lower_chars = ''abcdefghijklmnopqrstuvwxyz''
     @ [CHR 0xE0, CHR 0xE1, CHR 0xE2, CHR 0xE3, CHR 0xE4, CHR 0xE5, CHR 0xE6, CHR 0xE7,
        CHR 0xE8, CHR 0xE9, CHR 0xEA, CHR 0xEB, CHR 0xEC, CHR 0xED, CHR 0xEE, CHR 0xEF,
        CHR 0xF0, CHR 0xF1, CHR 0xF2, CHR 0xF3, CHR 0xF4, CHR 0xF5, CHR 0xF6,
        CHR 0xF8, CHR 0xF9, CHR 0xFA, CHR 0xFB, CHR 0xFC, CHR 0xFD, CHR 0xFE]"

definition lower_char :: "char \<Rightarrow> char" where
  "lower_char c = (case map_of (zip upper_chars lower_chars) c of Some l \<Rightarrow> l | None \<Rightarrow> c)"

definition lower :: "string \<Rightarrow> string" where
  "lower s = map lower_char s"

text \<open>\<open>s.replace('\\"', "")\<close>: every backslash followed by a double quote is deleted,
  scanning from the left.\<close>

fun remove_backslash_quote :: "string \<Rightarrow> string" where
  "remove_backslash_quote (a # b # cs) =
     (if a = CHR 0x5C \<and> b = CHR 0x22 then remove_backslash_quote cs
      else a # remove_backslash_quote (b # cs))"
| "remove_backslash_quote cs = cs"

section \<open>Dictionaries\<close>

text \<open>
  A Python \<open>dict\<close> with string keys, in insertion order: \<open>d[k] = v\<close> replaces the value
  of an existing key in place and appends a new key at the end.
\<close>

type_synonym dict = "(string \<times> string) list"

fun dict_set :: "string \<Rightarrow> string \<Rightarrow> dict \<Rightarrow> dict" where
  "dict_set k v [] = [(k, v)]"
| "dict_set k v ((k', v') # d) =
     (if k' = k then (k', v) # d else (k', v') # dict_set k v d)"

definition dict_keys :: "dict \<Rightarrow> string set" where
  "dict_keys d = set (map fst d)"

text \<open>
  Assignment in the \<open>CaseInsensitiveDict\<close> of the requests library, which holds the
  headers of a session: keys are compared in lower case, and an assignment to a present
  key keeps its place and stores the key as newly written.
\<close>

fun ci_dict_set :: "string \<Rightarrow> string \<Rightarrow> dict \<Rightarrow> dict" where
  "ci_dict_set k v [] = [(k, v)]"
| "ci_dict_set k v ((k', v') # d) =
     (if lower k' = lower k then (k, v) # d else (k', v') # ci_dict_set k v d)"

section \<open>Configuration\<close>

text \<open>
  The settings file and the process environment are maps from names to values.
  \<open>getenv\<close> is the source's \<open>getenv(key, default)\<close> with the default cast \<open>str\<close> and a
  string default: the file's value, else the environment's, else the default.
\<close>

type_synonym env = "string \<rightharpoonup> string"

definition getenv :: "env \<Rightarrow> env \<Rightarrow> string \<Rightarrow> string \<Rightarrow> string" where
  "getenv ENV os_environ key dflt =
     (case ENV key of
        Some val \<Rightarrow> val
      | None \<Rightarrow> (case os_environ key of Some val \<Rightarrow> val | None \<Rightarrow> dflt))"

definition parse_csv_list :: "string \<Rightarrow> string list" where
  "parse_csv_list s =
     (if s \<noteq> [] then [strip x. x \<leftarrow> split_char CHR '','' s, strip x \<noteq> []] else [])"

text \<open>The loop of \<open>extra_fields_from_env\<close> over \<open>range(1, max_n+1)\<close>, with the names
  \<open>EXTRA_FIELD_{i}_KEY\<close> and \<open>EXTRA_FIELD_{i}_VALUE\<close> of the settings it reads; the test
  \<open>v is not None\<close> always succeeds, since the default is the empty string.\<close>

definition extra_field_key :: "nat \<Rightarrow> string" where
  "extra_field_key i = ''EXTRA_FIELD_'' @ str_nat i @ ''_KEY''"

definition extra_field_value :: "nat \<Rightarrow> string" where
  "extra_field_value i = ''EXTRA_FIELD_'' @ str_nat i @ ''_VALUE''"

fun extra_fields_loop :: "env \<Rightarrow> env \<Rightarrow> nat list \<Rightarrow> dict \<Rightarrow> dict" where
  "extra_fields_loop ENV os_environ [] extras = extras"
| "extra_fields_loop ENV os_environ (i # rest) extras =
     (let k = getenv ENV os_environ (extra_field_key i) [];
          v = getenv ENV os_environ (extra_field_value i) []
      in extra_fields_loop ENV os_environ rest (if k \<noteq> [] then dict_set k v extras else extras))"

definition extra_fields_from_env :: "env \<Rightarrow> env \<Rightarrow> nat \<Rightarrow> dict" where
  "extra_fields_from_env ENV os_environ max_n =
     extra_fields_loop ENV os_environ [1..<max_n + 1] []"

text \<open>
  A Python float, as \<open>float(val)\<close> can return it: a finite value (the real number it
  denotes), an infinity or a NaN. \<open>DELAY_SECONDS=-1\<close>, \<open>nan\<close> and \<open>inf\<close> all parse.
\<close>

datatype pyfloat = Finite real | PosInf | NegInf | NaN

text \<open>
  The module-level settings read by the functions below. \<open>TIMEOUT\<close> only parametrises
  the request, whose outcome is an oracle of the world, and is left out.
\<close>

record config =
  FORM_RESPONSE_URL :: string
  REFERER_URL :: string
  USER_AGENT :: string
  ADDRESS_FILE :: string
  OUTPUT_CSV :: string
  BASE_USERNAME :: string
  DELAY_SECONDS :: pyfloat
  MAX_RETRIES :: int
  FVV :: string
  PAGE_HISTORY :: string
  FBZX :: string
  PARTIAL_RESPONSE :: string
  ENTRY_USERNAME :: string
  ENTRY_ADDRESS :: string
  ENTRY_YES :: string
  ENTRY_DONE :: string
  VALUE_YES :: string
  VALUE_DONE :: string
  ENTRY_YES_SENTINEL :: string
  ENTRY_DONE_SENTINEL :: string
  SESSION_COOKIES :: string
  ADDRESS_KEYS :: "string list"
  CHECKBOX_KEYS :: "string list"
  CHECKBOX_VALUE :: string
  AUTO_SENTINEL_FOR_CHECKBOX :: bool
  EXTRA_FIELDS :: dict

text \<open>The configuration when neither the settings file nor the environment sets anything.\<close>

definition default_config :: config where
  "default_config =
     \<lparr> FORM_RESPONSE_URL = [],
       REFERER_URL = [],
       USER_AGENT = ''Mozilla/5.0 (Windows NT 10.0; Win64; x64) ''
                    @ ''AppleWebKit/537.36 (KHTML, like Gecko) ''
                    @ ''Chrome/141.0.0.0 Safari/537.36'',
       ADDRESS_FILE = ''address.txt'',
       OUTPUT_CSV = ''results.csv'',
       BASE_USERNAME = ''bebas'',
       DELAY_SECONDS = Finite 2,
       MAX_RETRIES = 2,
       FVV = ''1'',
       PAGE_HISTORY = ''0'',
       FBZX = [],
       PARTIAL_RESPONSE = [],
       ENTRY_USERNAME = [],
       ENTRY_ADDRESS = [],
       ENTRY_YES = [],
       ENTRY_DONE = [],
       VALUE_YES = ''Yes'',
       VALUE_DONE = ''Done'',
       ENTRY_YES_SENTINEL = [],
       ENTRY_DONE_SENTINEL = [],
       SESSION_COOKIES = [],
       ADDRESS_KEYS = parse_csv_list [],
       CHECKBOX_KEYS = parse_csv_list [],
       CHECKBOX_VALUE = ''Completed'',
       AUTO_SENTINEL_FOR_CHECKBOX = True,
       EXTRA_FIELDS = extra_fields_from_env Map.empty Map.empty 20 \<rparr>"

section \<open>The payload builder\<close>

fun address_keys_loop :: "string list \<Rightarrow> string \<Rightarrow> dict \<Rightarrow> dict" where
  "address_keys_loop [] address payload = payload"
| "address_keys_loop (k # ks) address payload =
     address_keys_loop ks address (dict_set k address payload)"

fun checkbox_keys_loop :: "config \<Rightarrow> string list \<Rightarrow> dict \<Rightarrow> dict" where
  "checkbox_keys_loop cfg [] payload = payload"
| "checkbox_keys_loop cfg (k # ks) payload =
     (let payload = dict_set k (CHECKBOX_VALUE cfg) payload;
          payload = (if AUTO_SENTINEL_FOR_CHECKBOX cfg
                     then dict_set (k @ ''_sentinel'') [] payload else payload)
      in checkbox_keys_loop cfg ks payload)"

fun extras_loop :: "dict \<Rightarrow> dict \<Rightarrow> dict" where
  "extras_loop [] payload = payload"
| "extras_loop ((k, v) # kvs) payload = extras_loop kvs (dict_set k v payload)"

definition build_payload :: "config \<Rightarrow> string \<Rightarrow> string \<Rightarrow> dict" where
  \<open>build_payload cfg username address =
     (let payload = [];
          payload = (if ENTRY_USERNAME cfg \<noteq> [] \<and> username \<noteq> []
                     then dict_set (ENTRY_USERNAME cfg) username payload else payload);
          payload = (if ENTRY_ADDRESS cfg \<noteq> [] \<and> address \<noteq> []
                     then dict_set (ENTRY_ADDRESS cfg) address payload else payload);
          payload = address_keys_loop (ADDRESS_KEYS cfg) address payload;
          payload = checkbox_keys_loop cfg (CHECKBOX_KEYS cfg) payload;
          payload = (if ENTRY_YES cfg \<noteq> []
                     then (let payload = dict_set (ENTRY_YES cfg) (VALUE_YES cfg) payload
                           in if ENTRY_YES_SENTINEL cfg \<noteq> []
                              then dict_set (ENTRY_YES_SENTINEL cfg) [] payload else payload)
                     else payload);
          payload = (if ENTRY_DONE cfg \<noteq> []
                     then (let payload = dict_set (ENTRY_DONE cfg) (VALUE_DONE cfg) payload
                           in if ENTRY_DONE_SENTINEL cfg \<noteq> []
                              then dict_set (ENTRY_DONE_SENTINEL cfg) [] payload else payload)
                     else payload);
          payload = extras_loop (EXTRA_FIELDS cfg) payload;
          payload = (if FVV cfg \<noteq> [] then dict_set ''fvv'' (FVV cfg) payload else payload);
          payload = (if PAGE_HISTORY cfg \<noteq> []
                     then dict_set ''pageHistory'' (PAGE_HISTORY cfg) payload else payload);
          payload = (if FBZX cfg \<noteq> [] then dict_set ''fbzx'' (FBZX cfg) payload else payload);
          pr = PARTIAL_RESPONSE cfg;
          pr = (if pr = [] \<and> FBZX cfg \<noteq> []
                then ''[null,null,"'' @ FBZX cfg @ ''"]'' else pr);
          payload = (if pr \<noteq> [] then dict_set ''partialResponse'' pr payload else payload)
      in payload)\<close>

section \<open>The outside world\<close>

text \<open>
  What the program does to the outside world is a trace of events, oldest first; what
  the outside world answers is given by oracles, indexed by the number of earlier
  calls of the same kind. A POST either returns a response or raises; only
  \<open>requests.RequestException\<close> (transport failure) is caught by the retry loop, any
  other exception propagates. \<open>random.randint(1000, 9999)\<close> is the oracle's draw
  folded into that range. The world also fixes what the installed libraries and the
  platform decide: the default headers of a new \<open>requests.Session\<close>, the longest
  duration \<open>time.sleep\<close> accepts, and the exception it raises for a duration it refuses.
  An exception that nothing catches ends the run; the interpreter reports it
  (\<open>Traceback\<close>).
\<close>

record response =
  resp_status_code :: int
  resp_text :: string

datatype exn =
    RequestException string
  | RuntimeError string
  | ValueError string
  | OverflowError string
  | OtherException string

fun str_exn :: "exn \<Rightarrow> string" where
  "str_exn (RequestException msg) = msg"
| "str_exn (RuntimeError msg) = msg"
| "str_exn (ValueError msg) = msg"
| "str_exn (OverflowError msg) = msg"
| "str_exn (OtherException msg) = msg"

datatype post_outcome = Returns response | Raises exn

record session =
  headers :: dict
  cookies :: dict

datatype status_cell = Code int | ERR

record result_row =
  row_timestamp :: string
  row_username :: string
  row_address :: string
  row_status_code :: status_cell
  row_ok :: bool
  row_resp_snippet :: string

datatype event =
    Print string
  | Post string dict
  | Sleep int
  | Sleep_delay
  | Open_log string
  | Write_header "string list"
  | Write_row result_row
  | Close_log
  | Traceback exn

record world =
  http_post :: "nat \<Rightarrow> session \<Rightarrow> string \<Rightarrow> dict \<Rightarrow> post_outcome"
  randint :: "nat \<Rightarrow> nat"
  utcnow :: "nat \<Rightarrow> string"
  files :: "string \<rightharpoonup> string list"
  default_headers :: dict
  sleep_limit :: real
  sleep_exn :: "pyfloat \<Rightarrow> exn"

record run_state =
  posts :: nat
  rands :: nat
  clocks :: nat
  trace :: "event list"

definition emit :: "event \<Rightarrow> run_state \<Rightarrow> run_state" where
  "emit e st = st\<lparr>trace := trace st @ [e]\<rparr>"

definition initial_state :: run_state where
  "initial_state = \<lparr>posts = 0, rands = 0, clocks = 0, trace = []\<rparr>"

fun rows_of :: "event list \<Rightarrow> result_row list" where
  "rows_of [] = []"
| "rows_of (Write_row r # es) = r # rows_of es"
| "rows_of (e # es) = rows_of es"

fun posts_of :: "event list \<Rightarrow> (string \<times> dict) list" where
  "posts_of [] = []"
| "posts_of (Post url payload # es) = (url, payload) # posts_of es"
| "posts_of (e # es) = posts_of es"

fun opens_of :: "event list \<Rightarrow> string list" where
  "opens_of [] = []"
| "opens_of (Open_log path # es) = path # opens_of es"
| "opens_of (e # es) = opens_of es"

section \<open>Helpers\<close>

definition random_randint :: "world \<Rightarrow> nat \<Rightarrow> nat \<Rightarrow> nat \<Rightarrow> nat" where
  "random_randint w n lo hi = lo + randint w n mod (hi - lo + 1)"

definition gen_username :: "string \<Rightarrow> nat \<Rightarrow> string" where
  "gen_username prefix r = prefix @ str_nat r"

text \<open>\<open>read_addresses\<close>: a missing file gives no record; otherwise the stripped,
  non-empty lines in order.\<close>

fun read_lines_loop :: "string list \<Rightarrow> string list \<Rightarrow> string list" where
  "read_lines_loop [] items = items"
| "read_lines_loop (line # rest) items =
     (let s = strip line
      in read_lines_loop rest (if s \<noteq> [] then items @ [s] else items))"

definition read_addresses :: "world \<Rightarrow> string \<Rightarrow> string list" where
  "read_addresses w path =
     (case files w path of
        None \<Rightarrow> []
      | Some file_lines \<Rightarrow> read_lines_loop file_lines [])"

text \<open>
  \<open>time.sleep(d)\<close> for a float \<open>d\<close>: it raises for a NaN, an infinity, a negative
  duration and a duration beyond the platform's limit (\<open>ValueError\<close>, \<open>OverflowError\<close> or
  \<open>OSError\<close>, as the world says), and sleeps otherwise.
\<close>

definition sleep_error :: "world \<Rightarrow> pyfloat \<Rightarrow> exn option" where
  "sleep_error w d =
     (case d of
        Finite r \<Rightarrow> (if r < 0 \<or> sleep_limit w < r then Some (sleep_exn w d) else None)
      | _ \<Rightarrow> Some (sleep_exn w d))"

definition time_sleep :: "world \<Rightarrow> pyfloat \<Rightarrow> run_state \<Rightarrow> exn option \<times> run_state" where
  "time_sleep w d st =
     (case sleep_error w d of
        None \<Rightarrow> (None, emit Sleep_delay st)
      | Some e \<Rightarrow> (Some e, st))"

section \<open>The submission client\<close>

text \<open>
  \<open>s.cookies.update(cookie_dict)\<close> of the requests cookie jar stores each pair through
  \<open>set_cookie\<close>, which rewrites a value that starts and ends with a double quote by
  deleting every backslash-quote pair in it; the jar holds one cookie per name.
\<close>

definition set_cookie_value :: "string \<Rightarrow> string" where
  "set_cookie_value v =
     (if v \<noteq> [] \<and> hd v = CHR 0x22 \<and> last v = CHR 0x22 then remove_backslash_quote v else v)"

fun jar_update :: "dict \<Rightarrow> dict \<Rightarrow> dict" where
  "jar_update [] jar = jar"
| "jar_update ((name, v) # rest) jar =
     jar_update rest (dict_set name (set_cookie_value v) jar)"

text \<open>\<open>s.headers.update({...})\<close> on the session's case-insensitive headers.\<close>

fun ci_dict_update :: "dict \<Rightarrow> dict \<Rightarrow> dict" where
  "ci_dict_update [] hs = hs"
| "ci_dict_update ((k, v) # rest) hs = ci_dict_update rest (ci_dict_set k v hs)"

fun cookie_loop :: "string list \<Rightarrow> dict \<Rightarrow> dict" where
  "cookie_loop [] cookie_dict = cookie_dict"
| "cookie_loop (p # ps) cookie_dict =
     (if CHR ''='' \<in> set p
      then (let (k, v) = split_first CHR ''='' p
            in cookie_loop ps (dict_set (strip k) (strip v) cookie_dict))
      else cookie_loop ps cookie_dict)"

text \<open>The headers of the session: the library's defaults, updated with the three
  headers that \<open>mk_session\<close> sets.\<close>

definition session_headers :: "world \<Rightarrow> config \<Rightarrow> dict" where
  "session_headers w cfg =
     ci_dict_update
       [(''User-Agent'', USER_AGENT cfg),
        (''Referer'', if REFERER_URL cfg \<noteq> [] then REFERER_URL cfg else FORM_RESPONSE_URL cfg),
        (''Content-Type'', ''application/x-www-form-urlencoded'')]
       (default_headers w)"

definition mk_session :: "world \<Rightarrow> config \<Rightarrow> run_state \<Rightarrow> session \<times> run_state" where
  "mk_session w cfg st =
     (let hs = session_headers w cfg
      in if SESSION_COOKIES cfg \<noteq> []
         then (let cookie_pairs = [strip c. c \<leftarrow> split_char CHR '';'' (SESSION_COOKIES cfg),
                                            strip c \<noteq> []];
                   cookie_dict = cookie_loop cookie_pairs []
               in (\<lparr>headers = hs, cookies = jar_update cookie_dict []\<rparr>,
                   emit (Print (''[INFO] Cookies set: '' @ str_nat (length cookie_dict)
                                @ '' item(s)'')) st))
         else (\<lparr>headers = hs, cookies = []\<rparr>, st))"

text \<open>The loop of \<open>submit_with_retries\<close> over the attempt numbers still to try, with
  \<open>last_exc\<close> as the source keeps it.\<close>

fun submit_loop ::
  "world \<Rightarrow> config \<Rightarrow> session \<Rightarrow> dict \<Rightarrow> int list \<Rightarrow> exn option \<Rightarrow> run_state
     \<Rightarrow> (exn + response) \<times> run_state" where
  "submit_loop w cfg s payload [] last_exc st =
     (Inl (case last_exc of Some e \<Rightarrow> e | None \<Rightarrow> RuntimeError ''request failed''), st)"
| "submit_loop w cfg s payload (attempt # rest) last_exc st =
     (let outcome = http_post w (posts st) s (FORM_RESPONSE_URL cfg) payload;
          st = emit (Post (FORM_RESPONSE_URL cfg) payload) (st\<lparr>posts := posts st + 1\<rparr>)
      in case outcome of
           Returns r \<Rightarrow> (Inr r, st)
         | Raises (RequestException msg) \<Rightarrow>
             (let st = emit (Print (''[WARN] attempt '' @ str_int attempt @ ''/''
                                    @ str_int (MAX_RETRIES cfg) @ '' failed: '' @ msg)) st;
                  st = emit (Sleep (1 + attempt)) st
              in submit_loop w cfg s payload rest (Some (RequestException msg)) st)
         | Raises e \<Rightarrow> (Inl e, st))"

definition submit_with_retries ::
  "world \<Rightarrow> config \<Rightarrow> session \<Rightarrow> dict \<Rightarrow> run_state \<Rightarrow> (exn + response) \<times> run_state" where
  "submit_with_retries w cfg s payload st =
     submit_loop w cfg s payload [1..MAX_RETRIES cfg] None st"

section \<open>The run driver\<close>

text \<open>The \<open>try\<close>/\<open>except\<close> block of the loop body of \<open>main\<close>: submit, then log one row,
  from the response or from the exception.\<close>

definition submit_and_log ::
  "world \<Rightarrow> config \<Rightarrow> session \<Rightarrow> string \<Rightarrow> string \<Rightarrow> dict \<Rightarrow> run_state \<Rightarrow> run_state" where
  "submit_and_log w cfg s username addr payload st =
     (case submit_with_retries w cfg s payload st of
        (Inr resp, st) \<Rightarrow>
          (let ok = (200 \<le> resp_status_code resp \<and> resp_status_code resp < 400);
               snippet = replace_char CHR 0x0A CHR '' '' (take 400 (resp_text resp));
               st = emit (Print (''   -> HTTP '' @ str_int (resp_status_code resp)
                                 @ '' ok='' @ str_bool ok)) st;
               now = utcnow w (clocks st);
               st = st\<lparr>clocks := clocks st + 1\<rparr>
           in emit (Write_row \<lparr> row_timestamp = now,
                                row_username = username,
                                row_address = addr,
                                row_status_code = Code (resp_status_code resp),
                                row_ok = ok,
                                row_resp_snippet = snippet \<rparr>) st)
      | (Inl e, st) \<Rightarrow>
          (let st = emit (Print (''   -> ERROR: '' @ str_exn e)) st;
               now = utcnow w (clocks st);
               st = st\<lparr>clocks := clocks st + 1\<rparr>
           in emit (Write_row \<lparr> row_timestamp = now,
                                row_username = username,
                                row_address = addr,
                                row_status_code = ERR,
                                row_ok = False,
                                row_resp_snippet = take 400 (str_exn e) \<rparr>) st))"

text \<open>One iteration of the loop of \<open>main\<close>, for record number \<open>i\<close> of \<open>total\<close> (here
  \<open>n_total\<close>). The closing \<open>time.sleep(DELAY_SECONDS)\<close> is outside the \<open>try\<close>: what it
  raises leaves the loop.\<close>

definition process_record ::
  "world \<Rightarrow> config \<Rightarrow> session \<Rightarrow> nat \<Rightarrow> nat \<Rightarrow> string \<Rightarrow> run_state
     \<Rightarrow> exn option \<times> run_state" where
  "process_record w cfg s n_total i addr st =
     (let (username, st) =
            (if ENTRY_USERNAME cfg \<noteq> []
             then (gen_username (BASE_USERNAME cfg) (random_randint w (rands st) 1000 9999),
                   st\<lparr>rands := rands st + 1\<rparr>)
             else ([], st));
          payload = build_payload cfg username addr;
          st = emit (Print (''['' @ str_nat i @ ''/'' @ str_nat n_total @ ''] submit username=''
                            @ (if username \<noteq> [] then username else ''-'')
                            @ '' address='' @ addr)) st;
          st = submit_and_log w cfg s username addr payload st
      in time_sleep w (DELAY_SECONDS cfg) st)"

fun main_loop ::
  "world \<Rightarrow> config \<Rightarrow> session \<Rightarrow> nat \<Rightarrow> (nat \<times> string) list \<Rightarrow> run_state
     \<Rightarrow> exn option \<times> run_state" where
  "main_loop w cfg s n_total [] st = (None, st)"
| "main_loop w cfg s n_total ((i, addr) # rest) st =
     (case process_record w cfg s n_total i addr st of
        (Some e, st) \<Rightarrow> (Some e, st)
      | (None, st) \<Rightarrow> main_loop w cfg s n_total rest st)"

text \<open>\<open>main\<close>. Leaving the \<open>with\<close> block closes the log, also when an exception leaves
  it; the closing message is printed only when none did.\<close>

definition main :: "world \<Rightarrow> config \<Rightarrow> run_state" where
  "main w cfg =
     (let st = initial_state
      in if FORM_RESPONSE_URL cfg = []
         then emit (Print ''[ERROR] FORM_RESPONSE_URL belum diset di .env'') st
         else if \<not> (ENTRY_USERNAME cfg \<noteq> [] \<or> ENTRY_ADDRESS cfg \<noteq> [] \<or> ENTRY_YES cfg \<noteq> []
                    \<or> ENTRY_DONE cfg \<noteq> [] \<or> ADDRESS_KEYS cfg \<noteq> [] \<or> CHECKBOX_KEYS cfg \<noteq> []
                    \<or> EXTRA_FIELDS cfg \<noteq> [])
         then emit (Print (''[ERROR] Tidak ada field entry.* yang diset. Set minimal satu dari ''
                           @ ''ENTRY_USERNAME / ENTRY_ADDRESS / ADDRESS_KEYS / CHECKBOX_KEYS / dsb.'')) st
         else (let addresses = read_addresses w (ADDRESS_FILE cfg)
               in if addresses = []
                  then emit (Print (''[ERROR] '' @ ADDRESS_FILE cfg
                                    @ '' kosong atau tidak ditemukan'')) st
                  else (let (s, st) = mk_session w cfg st;
                            st = emit (Open_log (OUTPUT_CSV cfg)) st;
                            st = emit (Write_header [''timestamp'', ''username'', ''address'',
                                                     ''status_code'', ''ok'', ''resp_snippet'']) st;
                            n_total = length addresses;
                            (exc, st) = main_loop w cfg s n_total
                                          (zip [1..<Suc n_total] addresses) st;
                            st = emit Close_log st
                        in case exc of
                             None \<Rightarrow> emit (Print (''Selesai. Lihat '' @ OUTPUT_CSV cfg)) st
                           | Some e \<Rightarrow> emit (Traceback e) st)))"

section \<open>The specification's reading of the cookie string\<close>

text \<open>
  The cookie pairs as the specification words them: split the raw string on \<open>;\<close>, trim
  each piece, drop the empty pieces and those without \<open>=\<close>, split each remaining piece on
  its first \<open>=\<close> and trim name and value.
\<close>

definition cookie_pairs_spec :: "string \<Rightarrow> (string \<times> string) list" where
  "cookie_pairs_spec raw =
     map (\<lambda>p. (strip (fst (split_first CHR ''='' p)), strip (snd (split_first CHR ''='' p))))
       (filter (\<lambda>p. CHR ''='' \<in> set p)
          (filter (\<lambda>p. p \<noteq> []) (map strip (split_char CHR '';'' raw))))"

section \<open>Example worlds\<close>

text \<open>A world in which every POST fails at the transport level, with a three-line
  record file holding two records.\<close>

definition failing_world :: world where
  "failing_world =
     \<lparr> http_post = (\<lambda>n s url payload. Raises (RequestException ''timed out'')),
       randint = (\<lambda>n. 234),
       utcnow = (\<lambda>n. ''2024-01-01T00:00:0'' @ str_nat n),
       files = [''address.txt'' \<mapsto> [''0xabc'' @ [CHR 0x0A], [CHR 0x0A], ''  0xdef '']],
       default_headers = [(''User-Agent'', ''python-requests/2.32.3''),
                          (''Accept-Encoding'', ''gzip, deflate''),
                          (''Accept'', ''*/*''),
                          (''Connection'', ''keep-alive'')],
       sleep_limit = 9223372036,
       sleep_exn = (\<lambda>d. case d of
                      Finite r \<Rightarrow> if r < 0 then ValueError ''sleep length must be non-negative''
                                  else OverflowError ''timestamp out of range for platform time_t''
                    | NaN \<Rightarrow> ValueError ''Invalid value NaN (not a number)''
                    | _ \<Rightarrow> OverflowError ''timestamp out of range for platform time_t'') \<rparr>"


section \<open>Consistency of a logged row\<close>


section \<open>Facts about dictionaries and the default configuration\<close>

lemma dict_keys_Nil [simp]: "dict_keys [] = {}"
  by (simp add: dict_keys_def)

lemma dict_keys_Cons [simp]: "dict_keys ((k, v) # d) = insert k (dict_keys d)"
  by (simp add: dict_keys_def)

lemma map_fst_dict_set:
  "map fst (dict_set k v d) = (if k \<in> set (map fst d) then map fst d else map fst d @ [k])"
  by (induction k v d rule: dict_set.induct) auto

lemma dict_keys_dict_set [simp]: "dict_keys (dict_set k v d) = insert k (dict_keys d)"
  by (auto simp: dict_keys_def map_fst_dict_set)

lemma map_of_dict_set [simp]: "map_of (dict_set k v d) = (map_of d)(k \<mapsto> v)"
  by (induction k v d rule: dict_set.induct) (auto simp: fun_eq_iff)

lemma dict_keys_address_keys_loop [simp]:
  "dict_keys (address_keys_loop ks a p) = dict_keys p \<union> set ks"
  by (induction ks arbitrary: p) auto

lemma dict_keys_checkbox_keys_loop [simp]:
  "dict_keys (checkbox_keys_loop cfg ks p) =
     dict_keys p \<union> set ks
       \<union> (if AUTO_SENTINEL_FOR_CHECKBOX cfg then (\<lambda>k. k @ ''_sentinel'') ` set ks else {})"
  by (induction ks arbitrary: p) (auto simp: Let_def)

lemma dict_keys_extras_loop [simp]:
  "dict_keys (extras_loop kvs p) = dict_keys p \<union> dict_keys kvs"
  by (induction kvs p rule: extras_loop.induct) auto

lemma extra_fields_loop_empty_env [simp]:
  "extra_fields_loop Map.empty Map.empty is extras = extras"
  by (induction "is" arbitrary: extras) (simp_all add: getenv_def)

lemma default_config_eval:
  "default_config =
     \<lparr> FORM_RESPONSE_URL = [],
       REFERER_URL = [],
       USER_AGENT = ''Mozilla/5.0 (Windows NT 10.0; Win64; x64) AppleWebKit/537.36 (KHTML, like Gecko) Chrome/141.0.0.0 Safari/537.36'',
       ADDRESS_FILE = ''address.txt'',
       OUTPUT_CSV = ''results.csv'',
       BASE_USERNAME = ''bebas'',
       DELAY_SECONDS = Finite 2,
       MAX_RETRIES = 2,
       FVV = ''1'',
       PAGE_HISTORY = ''0'',
       FBZX = [],
       PARTIAL_RESPONSE = [],
       ENTRY_USERNAME = [],
       ENTRY_ADDRESS = [],
       ENTRY_YES = [],
       ENTRY_DONE = [],
       VALUE_YES = ''Yes'',
       VALUE_DONE = ''Done'',
       ENTRY_YES_SENTINEL = [],
       ENTRY_DONE_SENTINEL = [],
       SESSION_COOKIES = [],
       ADDRESS_KEYS = [],
       CHECKBOX_KEYS = [],
       CHECKBOX_VALUE = ''Completed'',
       AUTO_SENTINEL_FOR_CHECKBOX = True,
       EXTRA_FIELDS = [] \<rparr>"
  by (simp add: default_config_def parse_csv_list_def extra_fields_from_env_def)

lemma dict_keys_cond_set:
  "dict_keys (if c then dict_set k v p else p) = dict_keys p \<union> (if c then {k} else {})"
  by simp

lemma dict_keys_flag_set:
  "dict_keys (if c then (if c2 then dict_set k2 v2 (dict_set k v p) else dict_set k v p) else p)
     = dict_keys p \<union> (if c then {k} else {}) \<union> (if c \<and> c2 then {k2} else {})"
  by auto

lemma partial_response_nonempty:
  \<open>(if pr = [] \<and> fbzx \<noteq> [] then ''[null,null,"'' @ fbzx @ ''"]'' else pr) \<noteq> []
     \<longleftrightarrow> pr \<noteq> [] \<or> fbzx \<noteq> []\<close>
  by simp

text \<open>The keys of a built payload: one contribution per setting that is not empty.\<close>

lemma dict_keys_build_payload:
  "dict_keys (build_payload cfg username address) =
     (if ENTRY_USERNAME cfg \<noteq> [] \<and> username \<noteq> [] then {ENTRY_USERNAME cfg} else {})
   \<union> (if ENTRY_ADDRESS cfg \<noteq> [] \<and> address \<noteq> [] then {ENTRY_ADDRESS cfg} else {})
   \<union> set (ADDRESS_KEYS cfg)
   \<union> set (CHECKBOX_KEYS cfg)
   \<union> (if AUTO_SENTINEL_FOR_CHECKBOX cfg
       then (\<lambda>k. k @ ''_sentinel'') ` set (CHECKBOX_KEYS cfg) else {})
   \<union> (if ENTRY_YES cfg \<noteq> [] then {ENTRY_YES cfg} else {})
   \<union> (if ENTRY_YES cfg \<noteq> [] \<and> ENTRY_YES_SENTINEL cfg \<noteq> [] then {ENTRY_YES_SENTINEL cfg} else {})
   \<union> (if ENTRY_DONE cfg \<noteq> [] then {ENTRY_DONE cfg} else {})
   \<union> (if ENTRY_DONE cfg \<noteq> [] \<and> ENTRY_DONE_SENTINEL cfg \<noteq> [] then {ENTRY_DONE_SENTINEL cfg} else {})
   \<union> dict_keys (EXTRA_FIELDS cfg)
   \<union> (if FVV cfg \<noteq> [] then {''fvv''} else {})
   \<union> (if PAGE_HISTORY cfg \<noteq> [] then {''pageHistory''} else {})
   \<union> (if FBZX cfg \<noteq> [] then {''fbzx''} else {})
   \<union> (if PARTIAL_RESPONSE cfg \<noteq> [] \<or> FBZX cfg \<noteq> [] then {''partialResponse''} else {})"
  unfolding build_payload_def Let_def
  by (simp only: dict_keys_cond_set dict_keys_flag_set partial_response_nonempty
        dict_keys_address_keys_loop dict_keys_checkbox_keys_loop dict_keys_extras_loop
        dict_keys_Nil Un_empty_left Un_assoc)

lemma map_of_cond_set:
  "map_of (if c then dict_set k' v p else p) k = (if c \<and> k = k' then Some v else map_of p k)"
  by simp

lemma map_of_flag_set:
  "map_of (if c then (if c2 then dict_set k2 v2 (dict_set k1 v1 p) else dict_set k1 v1 p) else p) k
     = (if c \<and> c2 \<and> k = k2 then Some v2 else if c \<and> k = k1 then Some v1 else map_of p k)"
  by simp

lemma map_of_extras_loop:
  "map_of (extras_loop kvs p) k =
     (case map_of (rev kvs) k of Some v \<Rightarrow> Some v | None \<Rightarrow> map_of p k)"
proof (induction kvs p rule: extras_loop.induct)
  case (1 payload)
  show ?case by simp
next
  case (2 k' v' kvs payload)
  then show ?case by (simp add: map_add_def split: option.splits)
qed

text \<open>Which insertion decides the value of a key: the last one that writes it.\<close>

lemma map_of_build_payload:
  \<open>map_of (build_payload cfg username address) k =
     (if (if PARTIAL_RESPONSE cfg = [] \<and> FBZX cfg \<noteq> []
          then ''[null,null,"'' @ FBZX cfg @ ''"]'' else PARTIAL_RESPONSE cfg) \<noteq> []
         \<and> k = ''partialResponse''
      then Some (if PARTIAL_RESPONSE cfg = [] \<and> FBZX cfg \<noteq> []
                 then ''[null,null,"'' @ FBZX cfg @ ''"]'' else PARTIAL_RESPONSE cfg)
      else if FBZX cfg \<noteq> [] \<and> k = ''fbzx'' then Some (FBZX cfg)
      else if PAGE_HISTORY cfg \<noteq> [] \<and> k = ''pageHistory'' then Some (PAGE_HISTORY cfg)
      else if FVV cfg \<noteq> [] \<and> k = ''fvv'' then Some (FVV cfg)
      else (case map_of (rev (EXTRA_FIELDS cfg)) k of
              Some v \<Rightarrow> Some v
            | None \<Rightarrow>
               (if ENTRY_DONE cfg \<noteq> [] \<and> ENTRY_DONE_SENTINEL cfg \<noteq> [] \<and> k = ENTRY_DONE_SENTINEL cfg
                then Some []
                else if ENTRY_DONE cfg \<noteq> [] \<and> k = ENTRY_DONE cfg then Some (VALUE_DONE cfg)
                else if ENTRY_YES cfg \<noteq> [] \<and> ENTRY_YES_SENTINEL cfg \<noteq> [] \<and> k = ENTRY_YES_SENTINEL cfg
                then Some []
                else if ENTRY_YES cfg \<noteq> [] \<and> k = ENTRY_YES cfg then Some (VALUE_YES cfg)
                else map_of (checkbox_keys_loop cfg (CHECKBOX_KEYS cfg)
                       (address_keys_loop (ADDRESS_KEYS cfg) address
                          (if ENTRY_ADDRESS cfg \<noteq> [] \<and> address \<noteq> []
                           then dict_set (ENTRY_ADDRESS cfg) address
                                  (if ENTRY_USERNAME cfg \<noteq> [] \<and> username \<noteq> []
                                   then dict_set (ENTRY_USERNAME cfg) username [] else [])
                           else (if ENTRY_USERNAME cfg \<noteq> [] \<and> username \<noteq> []
                                 then dict_set (ENTRY_USERNAME cfg) username [] else [])))) k)))\<close>
  unfolding build_payload_def Let_def
  by (simp only: map_of_cond_set map_of_flag_set map_of_extras_loop)

lemma dict_keys_build_payload_checkboxes:
  "dict_keys (build_payload cfg username address) =
     set (CHECKBOX_KEYS cfg)
     \<union> (if AUTO_SENTINEL_FOR_CHECKBOX cfg
         then (\<lambda>k. k @ ''_sentinel'') ` set (CHECKBOX_KEYS cfg) else {})
     \<union> dict_keys (build_payload (cfg\<lparr>CHECKBOX_KEYS := []\<rparr>) username address)"
  unfolding dict_keys_build_payload
  by (simp split del: if_split add: Un_ac cong: if_cong)

lemma map_of_rev_None: "k \<notin> dict_keys d \<Longrightarrow> map_of (rev d) k = None"
  by (simp add: dict_keys_def map_of_eq_None_iff)

lemma distinct_dict_set:
  "distinct (map fst d) \<Longrightarrow> distinct (map fst (dict_set k v d))"
  by (simp add: map_fst_dict_set)

lemma extra_fields_loop_append:
  "extra_fields_loop E O' (xs @ ys) d = extra_fields_loop E O' ys (extra_fields_loop E O' xs d)"
  by (induction xs arbitrary: d) (simp_all add: Let_def)

lemma distinct_extra_fields_loop:
  "distinct (map fst d) \<Longrightarrow> distinct (map fst (extra_fields_loop E O' xs d))"
  by (induction xs arbitrary: d) (simp_all add: Let_def distinct_dict_set)

lemma map_of_extra_fields_loop_other:
  "\<forall>j \<in> set xs. getenv E O' (extra_field_key j) [] \<noteq> k
     \<Longrightarrow> map_of (extra_fields_loop E O' xs d) k = map_of d k"
  by (induction xs arbitrary: d) (auto simp: Let_def)

lemma dict_keys_extra_fields_loop:
  "dict_keys (extra_fields_loop E O' xs d) =
     dict_keys d \<union> {k. k \<noteq> [] \<and> (\<exists>j \<in> set xs. getenv E O' (extra_field_key j) [] = k)}"
  by (induction xs arbitrary: d) (auto simp: Let_def)

lemma upt_split_at:
  "1 \<le> i \<Longrightarrow> i \<le> n \<Longrightarrow> [1..<n + 1] = [1..<i] @ [i] @ [i + 1..<n + 1]"
  using upt_add_eq_append [of 1 i "n + 1 - i"] upt_conv_Cons [of i "n + 1"] by simp

text \<open>The value that \<open>extra_fields_from_env\<close> records for the key of index \<open>i\<close>, when no
  later index repeats the key.\<close>

lemma map_of_extra_fields_from_env:
  assumes "1 \<le> i" "i \<le> n"
    and "getenv E O' (extra_field_key i) [] = k" "k \<noteq> []"
    and "\<forall>j. i < j \<and> j \<le> n \<longrightarrow> getenv E O' (extra_field_key j) [] \<noteq> k"
  shows "map_of (extra_fields_from_env E O' n) k = Some (getenv E O' (extra_field_value i) [])"
proof -
  have later: "\<forall>j \<in> set [i + 1..<n + 1]. getenv E O' (extra_field_key j) [] \<noteq> k"
  proof
    fix j assume "j \<in> set [i + 1..<n + 1]"
    then have "i < j \<and> j \<le> n" by auto
    with assms(5) show "getenv E O' (extra_field_key j) [] \<noteq> k" by blast
  qed
  have "extra_fields_from_env E O' n =
          extra_fields_loop E O' [i + 1..<n + 1]
            (extra_fields_loop E O' [i] (extra_fields_loop E O' [1..<i] []))"
    by (simp only: extra_fields_from_env_def upt_split_at [OF assms(1,2)]
          extra_fields_loop_append)
  then have "map_of (extra_fields_from_env E O' n) k =
          map_of (extra_fields_loop E O' [i] (extra_fields_loop E O' [1..<i] [])) k"
    by (simp only: map_of_extra_fields_loop_other [OF later])
  also have "\<dots> = Some (getenv E O' (extra_field_value i) [])"
    using assms(3,4) by (simp add: Let_def)
  finally show ?thesis .
qed

lemma distinct_extra_fields_from_env: "distinct (map fst (extra_fields_from_env E O' n))"
  by (simp add: extra_fields_from_env_def distinct_extra_fields_loop)

lemma extra_field_key_in_keys:
  assumes "1 \<le> i" "i \<le> n" "getenv E O' (extra_field_key i) [] = k" "k \<noteq> []"
  shows "k \<in> dict_keys (extra_fields_from_env E O' n)"
proof -
  have "i \<in> set [1..<n + 1]" using assms(1,2) by auto
  with assms(3,4) show ?thesis
    unfolding extra_fields_from_env_def dict_keys_extra_fields_loop by blast
qed

lemma map_of_rev_distinct: "distinct (map fst d) \<Longrightarrow> map_of (rev d) = map_of d"
  by (rule map_of_inject_set [THEN iffD2]) (simp_all add: distinct_rev rev_map [symmetric])

lemma extra_field_key_19: "extra_field_key 19 = ''EXTRA_FIELD_19_KEY''"
  by (simp add: extra_field_key_def str_nat.simps digit_char_def)

lemma extra_field_key_20: "extra_field_key 20 = ''EXTRA_FIELD_20_KEY''"
  by (simp add: extra_field_key_def str_nat.simps digit_char_def)

lemma extra_field_value_19: "extra_field_value 19 = ''EXTRA_FIELD_19_VALUE''"
  by (simp add: extra_field_value_def str_nat.simps digit_char_def)

lemma map_of_cookie_loop:
  "map_of (cookie_loop ps d) =
     map_of d ++ map_of (rev (map (\<lambda>p. (strip (fst (split_first CHR ''='' p)),
                                         strip (snd (split_first CHR ''='' p))))
                               (filter (\<lambda>p. CHR ''='' \<in> set p) ps)))"
  by (induction ps arbitrary: d) (simp_all add: split_beta)

lemma cookie_pieces:
  "[strip c. c \<leftarrow> cs, strip c \<noteq> []] = filter (\<lambda>p. p \<noteq> []) (map strip cs)"
  by (induction cs) simp_all

lemma str_int_1 [simp]: "str_int 1 = ''1''"
  by (simp add: str_int_def str_nat.simps digit_char_def)

lemma str_int_2 [simp]: "str_int 2 = ''2''"
  by (simp add: str_int_def str_nat.simps digit_char_def)

lemma upto_1_2: "[1..2] = [1, 2 :: int]"
  by (simp add: upto_rec1)

subsection \<open>Rows logged by the run driver\<close>

lemma rows_of_append [simp]: "rows_of (xs @ ys) = rows_of xs @ rows_of ys"
  by (induction xs rule: rows_of.induct) simp_all
















lemma main_rejected:
  assumes "FORM_RESPONSE_URL cfg = []
         \<or> \<not> (ENTRY_USERNAME cfg \<noteq> [] \<or> ENTRY_ADDRESS cfg \<noteq> [] \<or> ENTRY_YES cfg \<noteq> []
               \<or> ENTRY_DONE cfg \<noteq> [] \<or> ADDRESS_KEYS cfg \<noteq> [] \<or> CHECKBOX_KEYS cfg \<noteq> []
               \<or> EXTRA_FIELDS cfg \<noteq> [])
         \<or> read_addresses w (ADDRESS_FILE cfg) = []"
  shows "\<exists>msg. main w cfg = initial_state\<lparr>trace := [Print (''[ERROR] '' @ msg)]\<rparr>"
proof (cases "FORM_RESPONSE_URL cfg = []")
  case True
  then show ?thesis
    by (simp add: main_def emit_def initial_state_def)
next
  case url: False
  show ?thesis
  proof (cases "ENTRY_USERNAME cfg \<noteq> [] \<or> ENTRY_ADDRESS cfg \<noteq> [] \<or> ENTRY_YES cfg \<noteq> []
               \<or> ENTRY_DONE cfg \<noteq> [] \<or> ADDRESS_KEYS cfg \<noteq> [] \<or> CHECKBOX_KEYS cfg \<noteq> []
               \<or> EXTRA_FIELDS cfg \<noteq> []")
    case False
    with url show ?thesis
      by (simp add: main_def emit_def initial_state_def)
  next
    case True
    with url assms have "read_addresses w (ADDRESS_FILE cfg) = []" by blast
    with url True show ?thesis
      by (simp add: main_def emit_def initial_state_def Let_def)
  qed
qed


lemma snd_mk_session:
  "snd (mk_session w cfg st) =
     (if SESSION_COOKIES cfg \<noteq> []
      then emit (Print (''[INFO] Cookies set: ''
                        @ str_nat (length (cookie_loop
                            [strip c. c \<leftarrow> split_char CHR '';'' (SESSION_COOKIES cfg),
                                      strip c \<noteq> []] []))
                        @ '' item(s)'')) st
      else st)"
  by (simp add: mk_session_def Let_def)


subsection \<open>What the string primitives compute\<close>

lemma strip_decomposition:
  "\<exists>l r. s = l @ strip s @ r \<and> list_all is_space l \<and> list_all is_space r"
proof -
  let ?a = "dropWhile is_space s"
  have 1: "s = takeWhile is_space s @ ?a" by simp
  have 2: "?a = strip s @ rev (takeWhile is_space (rev ?a))"
    unfolding strip_def by (metis rev_append rev_rev_ident takeWhile_dropWhile_id)
  have 3: "list_all is_space (takeWhile is_space s)"
    by (simp add: list_all_iff) (meson set_takeWhileD)
  have 4: "list_all is_space (rev (takeWhile is_space (rev ?a)))"
    by (simp add: list_all_iff) (meson set_takeWhileD)
  from 1 2 have "s = takeWhile is_space s @ strip s @ rev (takeWhile is_space (rev ?a))"
    by metis
  with 3 4 show ?thesis by blast
qed

lemma strip_ends:
  "strip s \<noteq> [] \<Longrightarrow> \<not> is_space (hd (strip s)) \<and> \<not> is_space (last (strip s))"
proof -
  assume ne: "strip s \<noteq> []"
  let ?a = "dropWhile is_space s"
  let ?b = "dropWhile is_space (rev ?a)"
  have b: "?b \<noteq> []" using ne by (simp add: strip_def)
  then have hb: "\<not> is_space (hd ?b)" by (rule hd_dropWhile)
  have "last (strip s) = hd ?b" using b by (simp add: strip_def last_rev)
  with hb have l: "\<not> is_space (last (strip s))" by simp
  have a: "?a \<noteq> []" using b by (metis dropWhile.simps(1) rev_is_Nil_conv)
  then have ha: "\<not> is_space (hd ?a)" by (rule hd_dropWhile)
  have "strip s = rev ?b" by (simp add: strip_def)
  have "rev ?a = takeWhile is_space (rev ?a) @ ?b" by simp
  then have "?a = rev ?b @ rev (takeWhile is_space (rev ?a))"
    by (metis rev_append rev_rev_ident)
  then have "hd ?a = hd (rev ?b)" using b by (metis hd_append2 rev_is_Nil_conv)
  with ha have "\<not> is_space (hd (strip s))" by (simp add: strip_def)
  with l show ?thesis by simp
qed

lemma split_char_nonempty [simp]: "split_char sep s \<noteq> []"
  by (induction s) (simp_all add: Let_def)

lemma join_split_char: "join_char sep (split_char sep s) = s"
proof (induction s)
  case Nil
  show ?case by simp
next
  case (Cons c cs)
  obtain p ps where r: "split_char sep cs = p # ps"
    by (cases "split_char sep cs") simp_all
  show ?case
  proof (cases "c = sep")
    case True
    with Cons r show ?thesis by simp
  next
    case False
    with Cons r show ?thesis by (cases ps) (simp_all add: Let_def)
  qed
qed

lemma split_char_pieces: "p \<in> set (split_char sep s) \<Longrightarrow> sep \<notin> set p"
proof (induction s arbitrary: p)
  case Nil
  then show ?case by simp
next
  case (Cons c cs)
  obtain q qs where r: "split_char sep cs = q # qs"
    by (cases "split_char sep cs") simp_all
  have q: "sep \<notin> set q" using Cons.IH [of q] r by simp
  show ?case
  proof (cases "c = sep")
    case True
    with Cons show ?thesis by auto
  next
    case False
    with Cons.prems r have "p = c # q \<or> p \<in> set qs" by (auto simp: Let_def)
    then show ?thesis
    proof
      assume "p = c # q"
      with q False show ?thesis by auto
    next
      assume "p \<in> set qs"
      then have "p \<in> set (split_char sep cs)" by (simp add: r)
      then show ?thesis by (rule Cons.IH)
    qed
  qed
qed

lemma split_first_decomposition:
  "sep \<in> set p \<Longrightarrow>
     p = fst (split_first sep p) @ sep # snd (split_first sep p)
     \<and> sep \<notin> set (fst (split_first sep p))"
proof -
  assume m: "sep \<in> set p"
  let ?d = "dropWhile (\<lambda>c. c \<noteq> sep) p"
  have d: "?d \<noteq> []" using m by (simp add: dropWhile_eq_Nil_conv)
  then have "hd ?d = sep" using hd_dropWhile [of "\<lambda>c. c \<noteq> sep" p] by simp
  with d have "?d = sep # tl ?d" by (cases ?d) simp_all
  then have "p = takeWhile (\<lambda>c. c \<noteq> sep) p @ sep # tl ?d"
    by (metis takeWhile_dropWhile_id)
  moreover have "sep \<notin> set (takeWhile (\<lambda>c. c \<noteq> sep) p)"
    by (auto dest: set_takeWhileD)
  ultimately show ?thesis by (simp add: split_first_def)
qed

lemma is_space_code_points:
  "is_space c \<longleftrightarrow> (of_char c :: nat) \<in> {9, 10, 11, 12, 13, 28, 29, 30, 31, 32, 133, 160}"
  unfolding is_space_def Let_def by (simp add: insert_iff) arith

subsection \<open>Records and cookies\<close>



lemma map_of_jar_update:
  "map_of (jar_update d jar) =
     map_of jar ++ map_of (rev (map (\<lambda>(name, v). (name, set_cookie_value v)) d))"
  by (induction d jar rule: jar_update.induct) (simp_all add: map_add_def fun_eq_iff split: option.splits)

lemma distinct_cookie_loop:
  "distinct (map fst d) \<Longrightarrow> distinct (map fst (cookie_loop ps d))"
  by (induction ps arbitrary: d) (simp_all add: split_beta distinct_dict_set)

lemma map_of_jar_update_distinct:
  "distinct (map fst d) \<Longrightarrow>
     map_of (jar_update d []) = map_of (map (\<lambda>(name, v). (name, set_cookie_value v)) d)"
proof -
  assume "distinct (map fst d)"
  then have "distinct (map fst (map (\<lambda>(name, v). (name, set_cookie_value v)) d))"
    by (simp add: comp_def split_beta)
  then have "map_of (rev (map (\<lambda>(name, v). (name, set_cookie_value v)) d))
               = map_of (map (\<lambda>(name, v). (name, set_cookie_value v)) d)"
    by (rule map_of_rev_distinct)
  then show ?thesis by (simp add: map_of_jar_update)
qed

lemma map_of_map_value:
  "map_of (map (\<lambda>(name, v). (name, f v)) d) = map_option f \<circ> map_of d"
  by (induction d) (auto simp: fun_eq_iff)

text \<open>The session's cookies as a mapping: the jar's rule applied to the last value of
  each name.\<close>

lemma map_of_session_cookies:
  "map_of (jar_update (cookie_loop ps []) []) =
     map_of (rev (map (\<lambda>(name, v). (name, set_cookie_value v))
       (map (\<lambda>p. (strip (fst (split_first CHR ''='' p)), strip (snd (split_first CHR ''='' p))))
            (filter (\<lambda>p. CHR ''='' \<in> set p) ps))))"
proof -
  let ?pairs = "map (\<lambda>p. (strip (fst (split_first CHR ''='' p)), strip (snd (split_first CHR ''='' p))))
            (filter (\<lambda>p. CHR ''='' \<in> set p) ps)"
  have "map_of (jar_update (cookie_loop ps []) [])
          = map_option set_cookie_value \<circ> map_of (cookie_loop ps [])"
    by (simp add: map_of_jar_update_distinct distinct_cookie_loop map_of_map_value)
  also have "map_of (cookie_loop ps []) = map_of (rev ?pairs)"
    by (simp add: map_of_cookie_loop)
  also have "map_option set_cookie_value \<circ> map_of (rev ?pairs)
          = map_of (map (\<lambda>(name, v). (name, set_cookie_value v)) (rev ?pairs))"
    by (simp add: map_of_map_value)
  finally show ?thesis by (simp add: rev_map)
qed

section \<open>The claims\<close>

text \<open>
  C5. With an fbzx value and an empty partial-response override, the built payload maps
  \<open>partialResponse\<close> to the literal \<open>[null,null,"<fbzx>"]\<close> (for \<open>xyz\<close>: \<open>[null,null,"xyz"]\<close>);
  a non-empty override is used verbatim.
\<close>

theorem build_payload_partialResponse:
  \<open>(FBZX cfg \<noteq> [] \<and> PARTIAL_RESPONSE cfg = [] \<longrightarrow>
      map_of (build_payload cfg username address) ''partialResponse''
        = Some (''[null,null,"'' @ FBZX cfg @ ''"]''))
   \<and> (PARTIAL_RESPONSE cfg \<noteq> [] \<longrightarrow>
      map_of (build_payload cfg username address) ''partialResponse''
        = Some (PARTIAL_RESPONSE cfg))\<close>
  by (simp add: build_payload_def Let_def)

theorem build_payload_partialResponse_witness:
  \<open>map_of (build_payload (default_config\<lparr>FBZX := ''xyz''\<rparr>) ''bebas1234'' ''addr'')
       ''partialResponse'' = Some ''[null,null,"xyz"]''
   \<and> map_of (build_payload (default_config\<lparr>FBZX := ''xyz'', PARTIAL_RESPONSE := ''[1]''\<rparr>)
         ''bebas1234'' ''addr'') ''partialResponse'' = Some ''[1]''\<close>
  using build_payload_partialResponse
          [of "default_config\<lparr>FBZX := ''xyz''\<rparr>" "''bebas1234''" "''addr''"]
        build_payload_partialResponse
          [of "default_config\<lparr>FBZX := ''xyz'', PARTIAL_RESPONSE := ''[1]''\<rparr>"
              "''bebas1234''" "''addr''"]
  by (simp add: default_config_eval)

text \<open>
  C4 (as amended). For every username and record value, the keys of the built payload
  are exactly the keys contributed by the settings that are not empty: the username field
  (with a non-empty username), the legacy address field (with a non-empty record), the
  multi-address and checkbox identifiers (with their \<open>_sentinel\<close> companions when the
  toggle is on), the yes and done flags and, only with their flag, the flags' sentinels,
  the extra fields, \<open>fvv\<close>, \<open>pageHistory\<close>, \<open>fbzx\<close>, and \<open>partialResponse\<close> when the
  override or fbzx is set. An empty setting contributes no key; a key it would name is
  present only when another non-empty setting names it.
\<close>

theorem build_payload_keys:
  "dict_keys (build_payload cfg username address) =
     (if ENTRY_USERNAME cfg \<noteq> [] \<and> username \<noteq> [] then {ENTRY_USERNAME cfg} else {})
   \<union> (if ENTRY_ADDRESS cfg \<noteq> [] \<and> address \<noteq> [] then {ENTRY_ADDRESS cfg} else {})
   \<union> set (ADDRESS_KEYS cfg)
   \<union> set (CHECKBOX_KEYS cfg)
   \<union> (if AUTO_SENTINEL_FOR_CHECKBOX cfg
       then (\<lambda>k. k @ ''_sentinel'') ` set (CHECKBOX_KEYS cfg) else {})
   \<union> (if ENTRY_YES cfg \<noteq> [] then {ENTRY_YES cfg} else {})
   \<union> (if ENTRY_YES cfg \<noteq> [] \<and> ENTRY_YES_SENTINEL cfg \<noteq> [] then {ENTRY_YES_SENTINEL cfg} else {})
   \<union> (if ENTRY_DONE cfg \<noteq> [] then {ENTRY_DONE cfg} else {})
   \<union> (if ENTRY_DONE cfg \<noteq> [] \<and> ENTRY_DONE_SENTINEL cfg \<noteq> [] then {ENTRY_DONE_SENTINEL cfg} else {})
   \<union> dict_keys (EXTRA_FIELDS cfg)
   \<union> (if FVV cfg \<noteq> [] then {''fvv''} else {})
   \<union> (if PAGE_HISTORY cfg \<noteq> [] then {''pageHistory''} else {})
   \<union> (if FBZX cfg \<noteq> [] then {''fbzx''} else {})
   \<union> (if PARTIAL_RESPONSE cfg \<noteq> [] \<or> FBZX cfg \<noteq> [] then {''partialResponse''} else {})"
  by (rule dict_keys_build_payload)

theorem build_payload_keys_witness:
  "dict_keys (build_payload default_config [] ''addr'') = {''fvv'', ''pageHistory''}"
  using build_payload_keys [of default_config "[]" "''addr''"]
  by (simp add: default_config_eval insert_commute)

text \<open>
  C4 as stated fails: with \<open>ENTRY_YES\<close> and the partial-response override both unset,
  the name configured as the yes-flag's sentinel is a key of the payload (the checkbox
  \<open>entry.1\<close> brings its own sentinel), and so is \<open>partialResponse\<close> (derived from fbzx).
\<close>

theorem build_payload_keys_counterexample:
  "ENTRY_YES (default_config\<lparr>FBZX := ''xyz'', ENTRY_YES_SENTINEL := ''entry.1_sentinel'',
                             CHECKBOX_KEYS := [''entry.1'']\<rparr>) = []
   \<and> PARTIAL_RESPONSE (default_config\<lparr>FBZX := ''xyz'', ENTRY_YES_SENTINEL := ''entry.1_sentinel'',
                             CHECKBOX_KEYS := [''entry.1'']\<rparr>) = []
   \<and> ''entry.1_sentinel'' \<in> dict_keys (build_payload
         (default_config\<lparr>FBZX := ''xyz'', ENTRY_YES_SENTINEL := ''entry.1_sentinel'',
                         CHECKBOX_KEYS := [''entry.1'']\<rparr>) [] ''addr'')
   \<and> ''partialResponse'' \<in> dict_keys (build_payload
         (default_config\<lparr>FBZX := ''xyz'', ENTRY_YES_SENTINEL := ''entry.1_sentinel'',
                         CHECKBOX_KEYS := [''entry.1'']\<rparr>) [] ''addr'')"
  by (simp add: default_config_eval build_payload_def Let_def)

text \<open>
  C6 (as amended). With checkbox identifiers \<open>["A","B"]\<close> and the auto-sentinel toggle
  enabled, the built payload maps \<open>A\<close> and \<open>B\<close> to the configured checkbox value and
  \<open>A_sentinel\<close> and \<open>B_sentinel\<close> to the empty string, provided that neither flag key
  (yes, done) and no extra-field key is one of these four names, and that no flag sentinel
  that is written (the flag being set) is \<open>A\<close> or \<open>B\<close>; a flag sentinel named \<open>A_sentinel\<close>
  or \<open>B_sentinel\<close> does no harm, it writes the same empty string. With the toggle disabled
  the checkbox identifiers contribute exactly the keys \<open>A\<close> and \<open>B\<close> (no sentinel
  companions), mapped to the checkbox value when no later key is \<open>A\<close> or \<open>B\<close>.
\<close>

theorem build_payload_checkboxes:
  assumes "CHECKBOX_KEYS cfg = [''A'', ''B'']"
  shows
    "(AUTO_SENTINEL_FOR_CHECKBOX cfg
        \<and> ENTRY_YES cfg \<notin> {''A'', ''A_sentinel'', ''B'', ''B_sentinel''}
        \<and> (ENTRY_YES cfg = [] \<or> ENTRY_YES_SENTINEL cfg \<notin> {''A'', ''B''})
        \<and> ENTRY_DONE cfg \<notin> {''A'', ''A_sentinel'', ''B'', ''B_sentinel''}
        \<and> (ENTRY_DONE cfg = [] \<or> ENTRY_DONE_SENTINEL cfg \<notin> {''A'', ''B''})
        \<and> dict_keys (EXTRA_FIELDS cfg) \<inter> {''A'', ''A_sentinel'', ''B'', ''B_sentinel''} = {}
      \<longrightarrow> map_of (build_payload cfg username address) ''A'' = Some (CHECKBOX_VALUE cfg)
        \<and> map_of (build_payload cfg username address) ''A_sentinel'' = Some []
        \<and> map_of (build_payload cfg username address) ''B'' = Some (CHECKBOX_VALUE cfg)
        \<and> map_of (build_payload cfg username address) ''B_sentinel'' = Some [])
     \<and> (\<not> AUTO_SENTINEL_FOR_CHECKBOX cfg
      \<longrightarrow> dict_keys (build_payload cfg username address)
            = {''A'', ''B''}
              \<union> dict_keys (build_payload (cfg\<lparr>CHECKBOX_KEYS := []\<rparr>) username address))
     \<and> (\<not> AUTO_SENTINEL_FOR_CHECKBOX cfg
        \<and> ENTRY_YES cfg \<notin> {''A'', ''B''}
        \<and> (ENTRY_YES cfg = [] \<or> ENTRY_YES_SENTINEL cfg \<notin> {''A'', ''B''})
        \<and> ENTRY_DONE cfg \<notin> {''A'', ''B''}
        \<and> (ENTRY_DONE cfg = [] \<or> ENTRY_DONE_SENTINEL cfg \<notin> {''A'', ''B''})
        \<and> dict_keys (EXTRA_FIELDS cfg) \<inter> {''A'', ''B''} = {}
      \<longrightarrow> map_of (build_payload cfg username address) ''A'' = Some (CHECKBOX_VALUE cfg)
        \<and> map_of (build_payload cfg username address) ''B'' = Some (CHECKBOX_VALUE cfg))"
proof (intro conjI impI)
  assume h: "AUTO_SENTINEL_FOR_CHECKBOX cfg
        \<and> ENTRY_YES cfg \<notin> {''A'', ''A_sentinel'', ''B'', ''B_sentinel''}
        \<and> (ENTRY_YES cfg = [] \<or> ENTRY_YES_SENTINEL cfg \<notin> {''A'', ''B''})
        \<and> ENTRY_DONE cfg \<notin> {''A'', ''A_sentinel'', ''B'', ''B_sentinel''}
        \<and> (ENTRY_DONE cfg = [] \<or> ENTRY_DONE_SENTINEL cfg \<notin> {''A'', ''B''})
        \<and> dict_keys (EXTRA_FIELDS cfg) \<inter> {''A'', ''A_sentinel'', ''B'', ''B_sentinel''} = {}"
  then have ex: "map_of (rev (EXTRA_FIELDS cfg)) ''A'' = None"
    "map_of (rev (EXTRA_FIELDS cfg)) ''A_sentinel'' = None"
    "map_of (rev (EXTRA_FIELDS cfg)) ''B'' = None"
    "map_of (rev (EXTRA_FIELDS cfg)) ''B_sentinel'' = None"
    by (simp_all add: map_of_rev_None)
  from h have auto_on: "AUTO_SENTINEL_FOR_CHECKBOX cfg" by simp
  from h have yes: "ENTRY_YES cfg \<noteq> ''A''" "ENTRY_YES cfg \<noteq> ''A_sentinel''"
    "ENTRY_YES cfg \<noteq> ''B''" "ENTRY_YES cfg \<noteq> ''B_sentinel''" by auto
  from h have dn: "ENTRY_DONE cfg \<noteq> ''A''" "ENTRY_DONE cfg \<noteq> ''A_sentinel''"
    "ENTRY_DONE cfg \<noteq> ''B''" "ENTRY_DONE cfg \<noteq> ''B_sentinel''" by auto
  from h have ys: "ENTRY_YES cfg = [] \<or> (ENTRY_YES_SENTINEL cfg \<noteq> ''A''
    \<and> ENTRY_YES_SENTINEL cfg \<noteq> ''B'')" by auto
  from h have ds: "ENTRY_DONE cfg = [] \<or> (ENTRY_DONE_SENTINEL cfg \<noteq> ''A''
    \<and> ENTRY_DONE_SENTINEL cfg \<noteq> ''B'')" by auto
  show "map_of (build_payload cfg username address) ''A'' = Some (CHECKBOX_VALUE cfg)"
    unfolding map_of_build_payload using ex auto_on yes dn ys ds assms by auto
  show "map_of (build_payload cfg username address) ''A_sentinel'' = Some []"
    unfolding map_of_build_payload using ex auto_on yes dn ys ds assms by auto
  show "map_of (build_payload cfg username address) ''B'' = Some (CHECKBOX_VALUE cfg)"
    unfolding map_of_build_payload using ex auto_on yes dn ys ds assms by auto
  show "map_of (build_payload cfg username address) ''B_sentinel'' = Some []"
    unfolding map_of_build_payload using ex auto_on yes dn ys ds assms by auto
next
  assume "\<not> AUTO_SENTINEL_FOR_CHECKBOX cfg"
  with assms show "dict_keys (build_payload cfg username address)
            = {''A'', ''B''}
              \<union> dict_keys (build_payload (cfg\<lparr>CHECKBOX_KEYS := []\<rparr>) username address)"
    by (simp add: dict_keys_build_payload_checkboxes [of cfg])
next
  assume h: "\<not> AUTO_SENTINEL_FOR_CHECKBOX cfg
        \<and> ENTRY_YES cfg \<notin> {''A'', ''B''}
        \<and> (ENTRY_YES cfg = [] \<or> ENTRY_YES_SENTINEL cfg \<notin> {''A'', ''B''})
        \<and> ENTRY_DONE cfg \<notin> {''A'', ''B''}
        \<and> (ENTRY_DONE cfg = [] \<or> ENTRY_DONE_SENTINEL cfg \<notin> {''A'', ''B''})
        \<and> dict_keys (EXTRA_FIELDS cfg) \<inter> {''A'', ''B''} = {}"
  then have ex: "map_of (rev (EXTRA_FIELDS cfg)) ''A'' = None"
    "map_of (rev (EXTRA_FIELDS cfg)) ''B'' = None"
    by (simp_all add: map_of_rev_None)
  from h have auto_off: "\<not> AUTO_SENTINEL_FOR_CHECKBOX cfg" by simp
  from h have yes: "ENTRY_YES cfg \<noteq> ''A''" "ENTRY_YES cfg \<noteq> ''B''" by auto
  from h have dn: "ENTRY_DONE cfg \<noteq> ''A''" "ENTRY_DONE cfg \<noteq> ''B''" by auto
  from h have ys: "ENTRY_YES cfg = [] \<or> (ENTRY_YES_SENTINEL cfg \<noteq> ''A''
    \<and> ENTRY_YES_SENTINEL cfg \<noteq> ''B'')" by auto
  from h have ds: "ENTRY_DONE cfg = [] \<or> (ENTRY_DONE_SENTINEL cfg \<noteq> ''A''
    \<and> ENTRY_DONE_SENTINEL cfg \<noteq> ''B'')" by auto
  show "map_of (build_payload cfg username address) ''A'' = Some (CHECKBOX_VALUE cfg)"
    unfolding map_of_build_payload using ex auto_off yes dn ys ds assms by auto
  show "map_of (build_payload cfg username address) ''B'' = Some (CHECKBOX_VALUE cfg)"
    unfolding map_of_build_payload using ex auto_off yes dn ys ds assms by auto
qed

theorem build_payload_checkboxes_witness:
  "map_of (build_payload (default_config\<lparr>CHECKBOX_KEYS := [''A'', ''B''], ENTRY_YES := ''entry.7'',
        ENTRY_YES_SENTINEL := ''A_sentinel''\<rparr>) [] ''addr'') ''A'' = Some ''Completed''
   \<and> map_of (build_payload (default_config\<lparr>CHECKBOX_KEYS := [''A'', ''B''], ENTRY_YES := ''entry.7'',
        ENTRY_YES_SENTINEL := ''A_sentinel''\<rparr>) [] ''addr'') ''A_sentinel'' = Some []
   \<and> map_of (build_payload (default_config\<lparr>CHECKBOX_KEYS := [''A'', ''B''], ENTRY_YES := ''entry.7'',
        ENTRY_YES_SENTINEL := ''A_sentinel''\<rparr>) [] ''addr'') ''B'' = Some ''Completed''
   \<and> map_of (build_payload (default_config\<lparr>CHECKBOX_KEYS := [''A'', ''B''], ENTRY_YES := ''entry.7'',
        ENTRY_YES_SENTINEL := ''A_sentinel''\<rparr>) [] ''addr'') ''B_sentinel'' = Some []
   \<and> dict_keys (build_payload (default_config\<lparr>CHECKBOX_KEYS := [''A'', ''B''],
         AUTO_SENTINEL_FOR_CHECKBOX := False\<rparr>) [] ''addr'')
       = {''A'', ''B'', ''fvv'', ''pageHistory''}"
  using build_payload_checkboxes
          [of "default_config\<lparr>CHECKBOX_KEYS := [''A'', ''B''], ENTRY_YES := ''entry.7'',
                 ENTRY_YES_SENTINEL := ''A_sentinel''\<rparr>" "[]" "''addr''"]
        build_payload_checkboxes
          [of "default_config\<lparr>CHECKBOX_KEYS := [''A'', ''B''],
                 AUTO_SENTINEL_FOR_CHECKBOX := False\<rparr>" "[]" "''addr''"]
  by (simp add: default_config_eval build_payload_def Let_def insert_commute)

text \<open>
  C6 as stated fails: when the yes flag is configured with the identifier \<open>A\<close>, the later
  insertion overwrites the checkbox value.
\<close>

theorem build_payload_checkboxes_counterexample:
  "AUTO_SENTINEL_FOR_CHECKBOX (default_config\<lparr>CHECKBOX_KEYS := [''A'', ''B''], ENTRY_YES := ''A''\<rparr>)
   \<and> CHECKBOX_KEYS (default_config\<lparr>CHECKBOX_KEYS := [''A'', ''B''], ENTRY_YES := ''A''\<rparr>)
       = [''A'', ''B'']
   \<and> CHECKBOX_VALUE (default_config\<lparr>CHECKBOX_KEYS := [''A'', ''B''], ENTRY_YES := ''A''\<rparr>)
       = ''Completed''
   \<and> map_of (build_payload (default_config\<lparr>CHECKBOX_KEYS := [''A'', ''B''], ENTRY_YES := ''A''\<rparr>)
         [] ''addr'') ''A'' = Some ''Yes''"
  by (simp add: default_config_eval build_payload_def Let_def)

text \<open>
  C10 (as amended). For every extra-field index \<open>i\<close> in 1..20 whose \<open>EXTRA_FIELD_i_KEY\<close> is
  configured non-empty, the key is present in every built payload. Its value is
  \<open>EXTRA_FIELD_i_VALUE\<close> (the empty string when that setting is absent) provided no later
  index up to 20 configures the same key and the key is not one that the builder writes
  after the extra fields (\<open>fvv\<close>, \<open>pageHistory\<close>, \<open>fbzx\<close>, \<open>partialResponse\<close>, each only when
  its own setting is non-empty).
\<close>

theorem extra_field_in_payload:
  assumes "EXTRA_FIELDS cfg = extra_fields_from_env ENV os_environ 20"
    and "1 \<le> i" "i \<le> 20"
    and "getenv ENV os_environ (extra_field_key i) [] = k" "k \<noteq> []"
  shows
    "k \<in> dict_keys (build_payload cfg username address)
     \<and> ((\<forall>j. i < j \<and> j \<le> 20 \<longrightarrow> getenv ENV os_environ (extra_field_key j) [] \<noteq> k)
          \<and> (FVV cfg = [] \<or> k \<noteq> ''fvv'')
          \<and> (PAGE_HISTORY cfg = [] \<or> k \<noteq> ''pageHistory'')
          \<and> (FBZX cfg = [] \<or> k \<noteq> ''fbzx'')
          \<and> ((PARTIAL_RESPONSE cfg = [] \<and> FBZX cfg = []) \<or> k \<noteq> ''partialResponse'')
        \<longrightarrow> map_of (build_payload cfg username address) k
              = Some (getenv ENV os_environ (extra_field_value i) []))
     \<and> (ENV (extra_field_value i) = None \<and> os_environ (extra_field_value i) = None
        \<longrightarrow> getenv ENV os_environ (extra_field_value i) [] = [])"
proof (intro conjI impI)
  have "k \<in> dict_keys (EXTRA_FIELDS cfg)"
    unfolding assms(1) using assms(2-5) by (rule extra_field_key_in_keys)
  then show "k \<in> dict_keys (build_payload cfg username address)"
    unfolding dict_keys_build_payload by (simp split del: if_split)
next
  assume h: "(\<forall>j. i < j \<and> j \<le> 20 \<longrightarrow> getenv ENV os_environ (extra_field_key j) [] \<noteq> k)
          \<and> (FVV cfg = [] \<or> k \<noteq> ''fvv'')
          \<and> (PAGE_HISTORY cfg = [] \<or> k \<noteq> ''pageHistory'')
          \<and> (FBZX cfg = [] \<or> k \<noteq> ''fbzx'')
          \<and> ((PARTIAL_RESPONSE cfg = [] \<and> FBZX cfg = []) \<or> k \<noteq> ''partialResponse'')"
  then have "map_of (extra_fields_from_env ENV os_environ 20) k
               = Some (getenv ENV os_environ (extra_field_value i) [])"
    using assms(2-5) by (intro map_of_extra_fields_from_env) simp_all
  then have ex: "map_of (rev (EXTRA_FIELDS cfg)) k
               = Some (getenv ENV os_environ (extra_field_value i) [])"
    by (simp add: assms(1) map_of_rev_distinct distinct_extra_fields_from_env)
  have c1: \<open>\<not> ((if PARTIAL_RESPONSE cfg = [] \<and> FBZX cfg \<noteq> []
          then ''[null,null,"'' @ FBZX cfg @ ''"]'' else PARTIAL_RESPONSE cfg) \<noteq> []
         \<and> k = ''partialResponse'')\<close>
    using h by auto
  have c2: "\<not> (FBZX cfg \<noteq> [] \<and> k = ''fbzx'')" using h by auto
  have c3: "\<not> (PAGE_HISTORY cfg \<noteq> [] \<and> k = ''pageHistory'')" using h by auto
  have c4: "\<not> (FVV cfg \<noteq> [] \<and> k = ''fvv'')" using h by auto
  show "map_of (build_payload cfg username address) k
          = Some (getenv ENV os_environ (extra_field_value i) [])"
    by (simp only: map_of_build_payload if_not_P [OF c1] if_not_P [OF c2] if_not_P [OF c3]
          if_not_P [OF c4] ex option.case)
next
  assume "ENV (extra_field_value i) = None \<and> os_environ (extra_field_value i) = None"
  then show "getenv ENV os_environ (extra_field_value i) [] = []"
    by (simp add: getenv_def)
qed

theorem extra_field_in_payload_witness:
  "map_of (build_payload
      (default_config\<lparr>EXTRA_FIELDS :=
         extra_fields_from_env [''EXTRA_FIELD_19_KEY'' \<mapsto> ''entry.5''] Map.empty 20\<rparr>)
      [] ''addr'') ''entry.5'' = Some []"
proof -
  let ?E = "[''EXTRA_FIELD_19_KEY'' \<mapsto> ''entry.5'']"
  let ?cfg = "default_config\<lparr>EXTRA_FIELDS := extra_fields_from_env ?E Map.empty 20\<rparr>"
  have k: "getenv ?E Map.empty (extra_field_key 19) [] = ''entry.5''"
    by (simp add: getenv_def extra_field_key_19)
  have later: "\<forall>j. 19 < j \<and> j \<le> 20 \<longrightarrow> getenv ?E Map.empty (extra_field_key j) [] \<noteq> ''entry.5''"
  proof (intro allI impI)
    fix j :: nat assume "19 < j \<and> j \<le> 20"
    then have "j = 20" by arith
    then show "getenv ?E Map.empty (extra_field_key j) [] \<noteq> ''entry.5''"
      by (simp add: getenv_def extra_field_key_20)
  qed
  have v: "getenv ?E Map.empty (extra_field_value 19) [] = []"
    by (simp add: getenv_def extra_field_value_19)
  from extra_field_in_payload [of ?cfg ?E Map.empty 19 "''entry.5''" "[]" "''addr''"] k later v
  show ?thesis by (simp add: default_config_eval)
qed

text \<open>
  C10 as stated fails: an extra field whose key is \<open>fvv\<close> is overwritten by the protocol
  parameter of the same name, which the builder writes later.
\<close>

theorem extra_field_in_payload_counterexample:
  "getenv [''EXTRA_FIELD_1_KEY'' \<mapsto> ''fvv'', ''EXTRA_FIELD_1_VALUE'' \<mapsto> ''2''] Map.empty
      (extra_field_key 1) [] = ''fvv''
   \<and> getenv [''EXTRA_FIELD_1_KEY'' \<mapsto> ''fvv'', ''EXTRA_FIELD_1_VALUE'' \<mapsto> ''2''] Map.empty
      (extra_field_value 1) [] = ''2''
   \<and> map_of (build_payload
        (default_config\<lparr>EXTRA_FIELDS := extra_fields_from_env
           [''EXTRA_FIELD_1_KEY'' \<mapsto> ''fvv'', ''EXTRA_FIELD_1_VALUE'' \<mapsto> ''2''] Map.empty 20\<rparr>)
        [] ''addr'') ''fvv'' = Some ''1''"
  by (simp add: map_of_build_payload default_config_eval getenv_def extra_field_key_def
        extra_field_value_def str_nat.simps digit_char_def)

text \<open>
  C8 (as amended). For every raw cookie string, the cookie mapping of the session is
  obtained by splitting the string on \<open>;\<close>, trimming each piece, dropping the empty pieces
  and those without \<open>=\<close>, and splitting each remaining piece on its first \<open>=\<close> into a
  trimmed name and value (a repeated name keeps its last value), where the cookie jar
  stores a value that starts and ends with a double quote with every backslash-quote
  pair deleted and any other value unchanged; for \<open>a=1; b=2\<close> the session holds exactly
  the cookies \<open>a=1\<close> and \<open>b=2\<close>. Splitting, trimming and the split at the first \<open>=\<close> are
  what their names say: the pieces joined by \<open>;\<close> give the string back and hold no
  \<open>;\<close>; a trimmed string is the string without its leading and trailing white space
  (code points 9-13, 28-32, 133, 160); name, \<open>=\<close> and value give the piece back and the
  name holds no \<open>=\<close>.
\<close>

theorem mk_session_cookies:
  "map_of (cookies (fst (mk_session w cfg st)))
     = map_of (rev (map (\<lambda>(name, v). (name, set_cookie_value v))
                        (cookie_pairs_spec (SESSION_COOKIES cfg))))
   \<and> cookies (fst (mk_session w (cfg\<lparr>SESSION_COOKIES := ''a=1; b=2''\<rparr>) st))
       = [(''a'', ''1''), (''b'', ''2'')]
   \<and> (\<forall>v. \<not> (v \<noteq> [] \<and> hd v = CHR 0x22 \<and> last v = CHR 0x22) \<longrightarrow> set_cookie_value v = v)
   \<and> (\<forall>raw. join_char CHR '';'' (split_char CHR '';'' raw) = raw
          \<and> (\<forall>p \<in> set (split_char CHR '';'' raw). CHR '';'' \<notin> set p))
   \<and> (\<forall>s. \<exists>l r. s = l @ strip s @ r \<and> list_all is_space l \<and> list_all is_space r
          \<and> (strip s \<noteq> [] \<longrightarrow> \<not> is_space (hd (strip s)) \<and> \<not> is_space (last (strip s))))
   \<and> (\<forall>c. is_space c \<longleftrightarrow>
          (of_char c :: nat) \<in> {9, 10, 11, 12, 13, 28, 29, 30, 31, 32, 133, 160})
   \<and> (\<forall>p. CHR ''='' \<in> set p \<longrightarrow>
          p = fst (split_first CHR ''='' p) @ CHR ''='' # snd (split_first CHR ''='' p)
          \<and> CHR ''='' \<notin> set (fst (split_first CHR ''='' p)))"
proof (intro conjI allI impI ballI)
  show "map_of (cookies (fst (mk_session w cfg st)))
     = map_of (rev (map (\<lambda>(name, v). (name, set_cookie_value v))
                        (cookie_pairs_spec (SESSION_COOKIES cfg))))"
  proof (cases "SESSION_COOKIES cfg = []")
    case True
    then show ?thesis
      by (simp add: mk_session_def cookie_pairs_spec_def strip_def)
  next
    case False
    then show ?thesis
      by (simp add: mk_session_def Let_def cookie_pairs_spec_def cookie_pieces
            map_of_session_cookies)
  qed
next
  show "cookies (fst (mk_session w (cfg\<lparr>SESSION_COOKIES := ''a=1; b=2''\<rparr>) st))
       = [(''a'', ''1''), (''b'', ''2'')]"
    by (simp add: mk_session_def Let_def strip_def is_space_def split_first_def
          set_cookie_value_def)
next
  fix v assume "\<not> (v \<noteq> [] \<and> hd v = CHR 0x22 \<and> last v = CHR 0x22)"
  then show "set_cookie_value v = v" by (auto simp: set_cookie_value_def)
next
  fix raw show "join_char CHR '';'' (split_char CHR '';'' raw) = raw"
    by (rule join_split_char)
next
  fix raw p assume "p \<in> set (split_char CHR '';'' raw)"
  then show "CHR '';'' \<notin> set p" by (rule split_char_pieces)
next
  fix s
  obtain l r where "s = l @ strip s @ r" "list_all is_space l" "list_all is_space r"
    using strip_decomposition by blast
  with strip_ends [of s]
  show "\<exists>l r. s = l @ strip s @ r \<and> list_all is_space l \<and> list_all is_space r
          \<and> (strip s \<noteq> [] \<longrightarrow> \<not> is_space (hd (strip s)) \<and> \<not> is_space (last (strip s)))"
    by blast
next
  fix c show "is_space c \<longleftrightarrow>
          (of_char c :: nat) \<in> {9, 10, 11, 12, 13, 28, 29, 30, 31, 32, 133, 160}"
    by (rule is_space_code_points)
next
  fix p assume "CHR ''='' \<in> set p"
  then show "p = fst (split_first CHR ''='' p) @ CHR ''='' # snd (split_first CHR ''='' p)"
    by (simp add: split_first_decomposition)
next
  fix p assume "CHR ''='' \<in> set p"
  then show "CHR ''='' \<notin> set (fst (split_first CHR ''='' p))"
    by (simp add: split_first_decomposition)
qed

theorem mk_session_cookies_witness:
  "map_of (cookies (fst (mk_session failing_world
      (default_config\<lparr>SESSION_COOKIES := ''a=1; junk; a = 3''\<rparr>) initial_state))) ''a''
     = Some ''3''
   \<and> set_cookie_value ''3'' = ''3''
   \<and> strip '' a '' = ''a''
   \<and> split_first CHR ''='' ''a = 3'' = (''a '', '' 3'')"
  using mk_session_cookies
          [of failing_world "default_config\<lparr>SESSION_COOKIES := ''a=1; junk; a = 3''\<rparr>"
              initial_state]
  by (simp add: cookie_pairs_spec_def strip_def is_space_def split_first_def
        set_cookie_value_def)

text \<open>
  C8 as stated fails: for the cookie string \<open>a="x\"y"\<close> the recipe of the claim gives the
  value \<open>"x\"y"\<close>, but the session holds \<open>"xy"\<close>.
\<close>

theorem mk_session_cookies_counterexample:
  "cookie_pairs_spec (''a='' @ [CHR 0x22, CHR ''x'', CHR 0x5C, CHR 0x22, CHR ''y'', CHR 0x22])
     = [(''a'', [CHR 0x22, CHR ''x'', CHR 0x5C, CHR 0x22, CHR ''y'', CHR 0x22])]
   \<and> cookies (fst (mk_session failing_world
        (default_config\<lparr>SESSION_COOKIES :=
           ''a='' @ [CHR 0x22, CHR ''x'', CHR 0x5C, CHR 0x22, CHR ''y'', CHR 0x22]\<rparr>)
        initial_state))
     = [(''a'', [CHR 0x22, CHR ''x'', CHR ''y'', CHR 0x22])]"
  by (simp add: cookie_pairs_spec_def mk_session_def Let_def strip_def is_space_def
        split_first_def set_cookie_value_def)

text \<open>
  C3. With \<open>MAX_RETRIES = 2\<close> and a transport failure on both attempts, the submission
  client performs exactly two POSTs, sleeps \<open>1 + attempt\<close> after each failed attempt (2
  between the attempts, 3 after the second), and then raises the last transport
  exception. A received response is returned at once, at whatever attempt it arrives,
  with no further POST and no sleep.
\<close>

theorem submit_with_retries_policy:
  "(MAX_RETRIES cfg = 2
      \<and> http_post w (posts st) s (FORM_RESPONSE_URL cfg) payload = Raises (RequestException e1)
      \<and> http_post w (posts st + 1) s (FORM_RESPONSE_URL cfg) payload = Raises (RequestException e2)
    \<longrightarrow> submit_with_retries w cfg s payload st =
          (Inl (RequestException e2),
           st\<lparr>posts := posts st + 2,
              trace := trace st @
                [Post (FORM_RESPONSE_URL cfg) payload,
                 Print (''[WARN] attempt 1/2 failed: '' @ e1), Sleep 2,
                 Post (FORM_RESPONSE_URL cfg) payload,
                 Print (''[WARN] attempt 2/2 failed: '' @ e2), Sleep 3]\<rparr>))
   \<and> (MAX_RETRIES cfg = 2
      \<and> http_post w (posts st) s (FORM_RESPONSE_URL cfg) payload = Raises (RequestException e1)
      \<and> http_post w (posts st + 1) s (FORM_RESPONSE_URL cfg) payload = Returns r
    \<longrightarrow> submit_with_retries w cfg s payload st =
          (Inr r,
           st\<lparr>posts := posts st + 2,
              trace := trace st @
                [Post (FORM_RESPONSE_URL cfg) payload,
                 Print (''[WARN] attempt 1/2 failed: '' @ e1), Sleep 2,
                 Post (FORM_RESPONSE_URL cfg) payload]\<rparr>))
   \<and> (http_post w (posts st) s (FORM_RESPONSE_URL cfg) payload = Returns r
    \<longrightarrow> submit_loop w cfg s payload (attempt # rest) last_exc st =
          (Inr r, st\<lparr>posts := posts st + 1,
                     trace := trace st @ [Post (FORM_RESPONSE_URL cfg) payload]\<rparr>))
   \<and> (1 \<le> MAX_RETRIES cfg
      \<and> http_post w (posts st) s (FORM_RESPONSE_URL cfg) payload = Returns r
    \<longrightarrow> submit_with_retries w cfg s payload st =
          (Inr r, st\<lparr>posts := posts st + 1,
                     trace := trace st @ [Post (FORM_RESPONSE_URL cfg) payload]\<rparr>))"
proof (intro conjI impI)
  assume "MAX_RETRIES cfg = 2
      \<and> http_post w (posts st) s (FORM_RESPONSE_URL cfg) payload = Raises (RequestException e1)
      \<and> http_post w (posts st + 1) s (FORM_RESPONSE_URL cfg) payload = Raises (RequestException e2)"
  then show "submit_with_retries w cfg s payload st =
          (Inl (RequestException e2),
           st\<lparr>posts := posts st + 2,
              trace := trace st @
                [Post (FORM_RESPONSE_URL cfg) payload,
                 Print (''[WARN] attempt 1/2 failed: '' @ e1), Sleep 2,
                 Post (FORM_RESPONSE_URL cfg) payload,
                 Print (''[WARN] attempt 2/2 failed: '' @ e2), Sleep 3]\<rparr>)"
    by (simp add: submit_with_retries_def emit_def upto_1_2)
next
  assume "MAX_RETRIES cfg = 2
      \<and> http_post w (posts st) s (FORM_RESPONSE_URL cfg) payload = Raises (RequestException e1)
      \<and> http_post w (posts st + 1) s (FORM_RESPONSE_URL cfg) payload = Returns r"
  then show "submit_with_retries w cfg s payload st =
          (Inr r,
           st\<lparr>posts := posts st + 2,
              trace := trace st @
                [Post (FORM_RESPONSE_URL cfg) payload,
                 Print (''[WARN] attempt 1/2 failed: '' @ e1), Sleep 2,
                 Post (FORM_RESPONSE_URL cfg) payload]\<rparr>)"
    by (simp add: submit_with_retries_def emit_def upto_1_2)
next
  assume "http_post w (posts st) s (FORM_RESPONSE_URL cfg) payload = Returns r"
  then show "submit_loop w cfg s payload (attempt # rest) last_exc st =
          (Inr r, st\<lparr>posts := posts st + 1,
                     trace := trace st @ [Post (FORM_RESPONSE_URL cfg) payload]\<rparr>)"
    by (simp add: emit_def)
next
  assume h: "1 \<le> MAX_RETRIES cfg
      \<and> http_post w (posts st) s (FORM_RESPONSE_URL cfg) payload = Returns r"
  then have "[1..MAX_RETRIES cfg] = 1 # [2..MAX_RETRIES cfg]"
    by (simp add: upto_rec1)
  with h show "submit_with_retries w cfg s payload st =
          (Inr r, st\<lparr>posts := posts st + 1,
                     trace := trace st @ [Post (FORM_RESPONSE_URL cfg) payload]\<rparr>)"
    by (simp add: submit_with_retries_def emit_def)
qed

theorem submit_with_retries_policy_witness:
  "submit_with_retries failing_world (default_config\<lparr>FORM_RESPONSE_URL := ''https://form''\<rparr>)
      \<lparr>headers = [], cookies = []\<rparr> [(''fvv'', ''1'')] initial_state
     = (Inl (RequestException ''timed out''),
        \<lparr>posts = 2, rands = 0, clocks = 0,
         trace = [Post ''https://form'' [(''fvv'', ''1'')],
                  Print ''[WARN] attempt 1/2 failed: timed out'', Sleep 2,
                  Post ''https://form'' [(''fvv'', ''1'')],
                  Print ''[WARN] attempt 2/2 failed: timed out'', Sleep 3]\<rparr>)"
  using submit_with_retries_policy
          [of "default_config\<lparr>FORM_RESPONSE_URL := ''https://form''\<rparr>" failing_world
              initial_state "\<lparr>headers = [], cookies = []\<rparr>" "[(''fvv'', ''1'')]"
              "''timed out''" "''timed out''"]
  by (simp add: default_config_eval failing_world_def initial_state_def)

text \<open>
  C9. With a maximum retry count of zero or less, the submission client makes no POST and
  no sleep (the state is unchanged) and raises \<open>RuntimeError("request failed")\<close>.
\<close>

theorem submit_with_retries_nonpositive:
  "MAX_RETRIES cfg \<le> 0 \<Longrightarrow>
     submit_with_retries w cfg s payload st = (Inl (RuntimeError ''request failed''), st)"
  by (simp add: submit_with_retries_def)

theorem submit_with_retries_nonpositive_witness:
  "submit_with_retries failing_world (default_config\<lparr>MAX_RETRIES := 0\<rparr>)
      \<lparr>headers = [], cookies = []\<rparr> [(''fvv'', ''1'')] initial_state
     = (Inl (RuntimeError ''request failed''), initial_state)"
  using submit_with_retries_nonpositive
          [of "default_config\<lparr>MAX_RETRIES := 0\<rparr>" failing_world
              "\<lparr>headers = [], cookies = []\<rparr>" "[(''fvv'', ''1'')]" initial_state]
  by (simp add: default_config_eval)

text \<open>
  C2. When the target URL is empty, or no field-identifier setting (username field,
  legacy address field, yes or done flag, multi-address list, checkbox list, extra fields)
  is present, or the record source yields no record, the run prints one \<open>[ERROR]\<close> line
  and stops: the log is never opened and no POST is made.
\<close>

theorem main_validation_gate:
  assumes "FORM_RESPONSE_URL cfg = []
         \<or> \<not> (ENTRY_USERNAME cfg \<noteq> [] \<or> ENTRY_ADDRESS cfg \<noteq> [] \<or> ENTRY_YES cfg \<noteq> []
               \<or> ENTRY_DONE cfg \<noteq> [] \<or> ADDRESS_KEYS cfg \<noteq> [] \<or> CHECKBOX_KEYS cfg \<noteq> []
               \<or> EXTRA_FIELDS cfg \<noteq> [])
         \<or> read_addresses w (ADDRESS_FILE cfg) = []"
  shows "(\<exists>msg. trace (main w cfg) = [Print (''[ERROR] '' @ msg)])
       \<and> opens_of (trace (main w cfg)) = []
       \<and> posts_of (trace (main w cfg)) = []
       \<and> posts (main w cfg) = 0"
proof -
  obtain msg where "main w cfg = initial_state\<lparr>trace := [Print (''[ERROR] '' @ msg)]\<rparr>"
    using main_rejected [OF assms] by blast
  then show ?thesis by (simp add: initial_state_def)
qed

theorem main_validation_gate_witness:
  "trace (main failing_world default_config)
     = [Print ''[ERROR] FORM_RESPONSE_URL belum diset di .env'']
   \<and> trace (main failing_world
        (default_config\<lparr>FORM_RESPONSE_URL := ''https://form'', ENTRY_ADDRESS := ''entry.1'',
                        ADDRESS_FILE := ''missing.txt''\<rparr>))
     = [Print ''[ERROR] missing.txt kosong atau tidak ditemukan'']
   \<and> posts (main failing_world default_config) = 0"
  using main_validation_gate [of default_config failing_world]
        main_validation_gate
          [of "default_config\<lparr>FORM_RESPONSE_URL := ''https://form'', ENTRY_ADDRESS := ''entry.1'',
                               ADDRESS_FILE := ''missing.txt''\<rparr>" failing_world]
  by (simp add: default_config_eval main_def emit_def initial_state_def read_addresses_def
        failing_world_def Let_def)






end
